theory Spec2Isabelle
  imports Complex_Main "HOL-Library.Word"
begin

section \<open>Shared vocabulary\<close>

text \<open>
  The two tools (\<^verbatim>\<open>server/services/midas_depth.py\<close> and
  \<^verbatim>\<open>server/services/openclip_embeddings.py\<close>) are glue around opaque library
  primitives (image decoding, the pretrained networks, the file system).  Every such
  primitive is a field of an environment record; what the scripts themselves do with the
  results is modelled as written.

  A raised Python exception (an instance of \<^verbatim>\<open>Exception\<close>) is a value of type
  \<open>exn\<close> carrying what \<^verbatim>\<open>str(e)\<close> returns; a call that may raise has the
  result type \<open>exn + 'a\<close>.
\<close>

datatype exn = Exn string

fun str_exn :: "exn \<Rightarrow> string" where
  "str_exn (Exn m) = m"

text \<open>\<^verbatim>\<open>s.startswith(p)\<close>.\<close>

definition startswith :: "string \<Rightarrow> string \<Rightarrow> bool" where
  "startswith s p = (take (length p) s = p)"

section \<open>Depth-map tool: normalisation (midas\_depth.py, lines 84--93)\<close>

text \<open>
  The raw depth map is a two-dimensional \<^verbatim>\<open>float32\<close> array.  A float is a finite
  value, an infinity or NaN; the sign of a zero is not recorded (\<open>Finite 0\<close> stands for
  both zeros, and a zero divisor counts as positive).  The result of an arithmetic
  operation on finite values is the exact result rounded to \<^verbatim>\<open>float32\<close>; the rounding
  (overflow to an infinity included) is the parameter \<open>rnd\<close>, except that an exact
  result of zero is zero.
\<close>

datatype f32 = Finite real | PosInf | NegInf | NaN

definition f32_result :: "(real \<Rightarrow> f32) \<Rightarrow> real \<Rightarrow> f32" where
  "f32_result rnd r = (if r = 0 then Finite 0 else rnd r)"

fun f32_sub :: "(real \<Rightarrow> f32) \<Rightarrow> f32 \<Rightarrow> f32 \<Rightarrow> f32" where
  "f32_sub rnd NaN _ = NaN"
| "f32_sub rnd _ NaN = NaN"
| "f32_sub rnd (Finite a) (Finite b) = f32_result rnd (a - b)"
| "f32_sub rnd (Finite a) PosInf = NegInf"
| "f32_sub rnd (Finite a) NegInf = PosInf"
| "f32_sub rnd PosInf PosInf = NaN"
| "f32_sub rnd PosInf _ = PosInf"
| "f32_sub rnd NegInf NegInf = NaN"
| "f32_sub rnd NegInf _ = NegInf"

fun f32_div :: "(real \<Rightarrow> f32) \<Rightarrow> f32 \<Rightarrow> f32 \<Rightarrow> f32" where
  "f32_div rnd NaN _ = NaN"
| "f32_div rnd _ NaN = NaN"
| "f32_div rnd (Finite a) (Finite b) =
     (if b = 0 then (if a = 0 then NaN else if 0 < a then PosInf else NegInf)
      else f32_result rnd (a / b))"
| "f32_div rnd (Finite a) _ = Finite 0"
| "f32_div rnd PosInf (Finite b) = (if 0 \<le> b then PosInf else NegInf)"
| "f32_div rnd NegInf (Finite b) = (if 0 \<le> b then NegInf else PosInf)"
| "f32_div rnd _ _ = NaN"

fun f32_mul :: "(real \<Rightarrow> f32) \<Rightarrow> f32 \<Rightarrow> f32 \<Rightarrow> f32" where
  "f32_mul rnd NaN _ = NaN"
| "f32_mul rnd _ NaN = NaN"
| "f32_mul rnd (Finite a) (Finite b) = f32_result rnd (a * b)"
| "f32_mul rnd (Finite a) PosInf = (if a = 0 then NaN else if 0 < a then PosInf else NegInf)"
| "f32_mul rnd (Finite a) NegInf = (if a = 0 then NaN else if 0 < a then NegInf else PosInf)"
| "f32_mul rnd PosInf (Finite b) = (if b = 0 then NaN else if 0 < b then PosInf else NegInf)"
| "f32_mul rnd NegInf (Finite b) = (if b = 0 then NaN else if 0 < b then NegInf else PosInf)"
| "f32_mul rnd PosInf PosInf = PosInf"
| "f32_mul rnd PosInf NegInf = NegInf"
| "f32_mul rnd NegInf PosInf = NegInf"
| "f32_mul rnd NegInf NegInf = PosInf"

text \<open>\<^verbatim>\<open>x > y\<close>: false whenever an operand is NaN.\<close>

fun f32_gt :: "f32 \<Rightarrow> f32 \<Rightarrow> bool" where
  "f32_gt NaN _ = False"
| "f32_gt _ NaN = False"
| "f32_gt (Finite a) (Finite b) = (b < a)"
| "f32_gt PosInf PosInf = False"
| "f32_gt PosInf _ = True"
| "f32_gt _ PosInf = False"
| "f32_gt NegInf _ = False"
| "f32_gt _ NegInf = True"

text \<open>
  \<^verbatim>\<open>depth_map.min()\<close> and \<^verbatim>\<open>depth_map.max()\<close> reduce over all elements, return
  NaN as soon as an element is NaN, and raise \<^verbatim>\<open>ValueError\<close> on an array without
  elements.
\<close>

definition f32_minimum :: "f32 \<Rightarrow> f32 \<Rightarrow> f32" where
  "f32_minimum x y = (if x = NaN \<or> y = NaN then NaN else if f32_gt x y then y else x)"

definition f32_maximum :: "f32 \<Rightarrow> f32 \<Rightarrow> f32" where
  "f32_maximum x y = (if x = NaN \<or> y = NaN then NaN else if f32_gt y x then y else x)"

definition np_min :: "f32 list list \<Rightarrow> exn + f32" where
  "np_min a = (case concat a of
       [] \<Rightarrow> Inl (Exn ''zero-size array to reduction operation minimum which has no identity'')
     | x # xs \<Rightarrow> Inr (fold (\<lambda>y acc. f32_minimum acc y) xs x))"

definition np_max :: "f32 list list \<Rightarrow> exn + f32" where
  "np_max a = (case concat a of
       [] \<Rightarrow> Inl (Exn ''zero-size array to reduction operation maximum which has no identity'')
     | x # xs \<Rightarrow> Inr (fold (\<lambda>y acc. f32_maximum acc y) xs x))"

text \<open>
  \<^verbatim>\<open>if depth_max > depth_min: (depth_map - depth_min) / (depth_max - depth_min)\<close>
  \<^verbatim>\<open>else: np.zeros_like(depth_map)\<close>
\<close>

definition depth_normalized ::
  "(real \<Rightarrow> f32) \<Rightarrow> f32 \<Rightarrow> f32 \<Rightarrow> f32 list list \<Rightarrow> f32 list list" where
  "depth_normalized rnd depth_min depth_max depth_map =
     (if f32_gt depth_max depth_min
      then map (map (\<lambda>x. f32_div rnd (f32_sub rnd x depth_min)
                                     (f32_sub rnd depth_max depth_min))) depth_map
      else map (map (\<lambda>_. Finite 0)) depth_map)"

text \<open>
  \<^verbatim>\<open>.astype(np.uint8)\<close>: a finite value whose integer part (rounding towards zero)
  fits in eight bits is stored as that integer.  What is stored for any other value
  depends on the platform; it is the parameter \<open>cast\<close>.
\<close>

definition trunc :: "real \<Rightarrow> int" where
  "trunc x = (if 0 \<le> x then \<lfloor>x\<rfloor> else \<lceil>x\<rceil>)"

definition astype_uint8 :: "(f32 \<Rightarrow> 8 word) \<Rightarrow> f32 \<Rightarrow> 8 word" where
  "astype_uint8 cast x =
     (case x of
        Finite r \<Rightarrow> if - 1 < r \<and> r < 256 then word_of_int (trunc r) else cast x
      | _ \<Rightarrow> cast x)"

text \<open>\<^verbatim>\<open>depth_uint8 = (depth_normalized * 255).astype(np.uint8)\<close>\<close>

definition depth_uint8 ::
  "(real \<Rightarrow> f32) \<Rightarrow> (f32 \<Rightarrow> 8 word) \<Rightarrow> f32 list list \<Rightarrow> 8 word list list" where
  "depth_uint8 rnd cast dn =
     map (map (\<lambda>x. astype_uint8 cast (f32_mul rnd x (Finite 255)))) dn"

section \<open>Paths\<close>

text \<open>
  \<^verbatim>\<open>os.path.dirname\<close> (posixpath): everything up to and including the last slash,
  with trailing slashes removed unless the head consists of slashes only.
\<close>

definition rstrip_slash :: "string \<Rightarrow> string" where
  "rstrip_slash s = rev (dropWhile (\<lambda>c. c = CHR ''/'') (rev s))"

definition os_path_dirname :: "string \<Rightarrow> string" where
  "os_path_dirname p =
     (let head = rev (dropWhile (\<lambda>c. c \<noteq> CHR ''/'') (rev p))
      in if head \<noteq> [] \<and> \<not> list_all (\<lambda>c. c = CHR ''/'') head then rstrip_slash head else head)"

text \<open>\<^verbatim>\<open>os.path.join(a, b)\<close> (posixpath, two arguments).\<close>

definition os_path_join :: "string \<Rightarrow> string \<Rightarrow> string" where
  "os_path_join a b =
     (if startswith b ''/'' then b
      else if a = [] \<or> last a = CHR ''/'' then a @ b
      else a @ ''/'' @ b)"

text \<open>\<^verbatim>\<open>s.split(c)\<close> for a one-character separator.\<close>

fun split_on :: "char \<Rightarrow> string \<Rightarrow> string list" where
  "split_on c [] = [[]]"
| "split_on c (x # xs) =
     (if x = c then [] # split_on c xs
      else (case split_on c xs of [] \<Rightarrow> [[x]] | w # ws \<Rightarrow> (x # w) # ws))"

fun join_slash :: "string list \<Rightarrow> string" where
  "join_slash [] = []"
| "join_slash [w] = w"
| "join_slash (w # v # ws) = w @ ''/'' @ join_slash (v # ws)"

text \<open>
  A \<^verbatim>\<open>pathlib.Path\<close> on a POSIX system: its root and its components.  The root is
  empty for a relative path, \<^verbatim>\<open>//\<close> when the string starts with exactly two slashes
  and \<^verbatim>\<open>/\<close> for any other number of leading slashes.  Construction drops empty and
  \<^verbatim>\<open>.\<close> components.
\<close>

record ppath =
  root :: string
  parts :: "string list"

definition path_root :: "string \<Rightarrow> string" where
  "path_root s =
     (let n = length (takeWhile (\<lambda>c. c = CHR ''/'') s)
      in if n = 0 then [] else if n = 2 then ''//'' else ''/'')"

definition Path :: "string \<Rightarrow> ppath" where
  "Path s = \<lparr>root = path_root s,
             parts = filter (\<lambda>w. w \<noteq> [] \<and> w \<noteq> ''.'') (split_on (CHR ''/'') s)\<rparr>"

definition path_str :: "ppath \<Rightarrow> string" where
  "path_str p =
     (if root p \<noteq> [] then root p @ join_slash (parts p)
      else if parts p = [] then ''.'' else join_slash (parts p))"

definition path_parent :: "ppath \<Rightarrow> ppath" where
  "path_parent p = p\<lparr>parts := butlast (parts p)\<rparr>"

definition path_name :: "ppath \<Rightarrow> string" where
  "path_name p = (if parts p = [] then [] else last (parts p))"

text \<open>\<^verbatim>\<open>p / s\<close>: an absolute right operand replaces the left one.\<close>

definition truediv :: "ppath \<Rightarrow> string \<Rightarrow> ppath" where
  "truediv p s = (let q = Path s in if root q \<noteq> [] then q
                  else \<lparr>root = root p, parts = parts p @ parts q\<rparr>)"

text \<open>A child yielded by \<^verbatim>\<open>iterdir()\<close>: the entry name appended as one component.\<close>

definition make_child :: "ppath \<Rightarrow> string \<Rightarrow> ppath" where
  "make_child p n = p\<lparr>parts := parts p @ [n]\<rparr>"

text \<open>
  \<^verbatim>\<open>suffix\<close> and \<^verbatim>\<open>stem\<close> of a file name: with \<^verbatim>\<open>i = name.rfind('.')\<close>, the
  suffix is \<^verbatim>\<open>name[i:]\<close> when \<^verbatim>\<open>0 < i < len(name) - 1\<close> and empty otherwise.
\<close>

definition name_suffix :: "string \<Rightarrow> string" where
  "name_suffix n =
     (if CHR ''.'' \<in> set n
      then (let i = length n - length (takeWhile (\<lambda>c. c \<noteq> CHR ''.'') (rev n)) - 1
            in if 0 < i \<and> i < length n - 1 then drop i n else [])
      else [])"

definition name_stem :: "string \<Rightarrow> string" where
  "name_stem n =
     (if CHR ''.'' \<in> set n
      then (let i = length n - length (takeWhile (\<lambda>c. c \<noteq> CHR ''.'') (rev n)) - 1
            in if 0 < i \<and> i < length n - 1 then take i n else n)
      else n)"

definition path_suffix :: "ppath \<Rightarrow> string" where
  "path_suffix p = name_suffix (path_name p)"

definition path_stem :: "ppath \<Rightarrow> string" where
  "path_stem p = name_stem (path_name p)"

text \<open>
  \<^verbatim>\<open>str.lower()\<close> on the bytes of a name: the letters A--Z are mapped to a--z.  (No
  character outside ASCII lowers to a letter of the recognised extensions.)
\<close>

definition lower_char :: "char \<Rightarrow> char" where
  "lower_char c =
     (case map_of (zip ''ABCDEFGHIJKLMNOPQRSTUVWXYZ'' ''abcdefghijklmnopqrstuvwxyz'') c of
        None \<Rightarrow> c
      | Some d \<Rightarrow> d)"

definition lower :: "string \<Rightarrow> string" where
  "lower s = map lower_char s"

section \<open>Depth-map tool (midas\_depth.py)\<close>

text \<open>
  The dictionaries the tool returns and prints: \<^verbatim>\<open>{"error": msg}\<close>, the success
  record of one image (input, output, \<^verbatim>\<open>depth_range\<close> when present, model), and the
  batch report (\<^verbatim>\<open>batch_results\<close> as pairs of \<^verbatim>\<open>file\<close> and \<^verbatim>\<open>result\<close>,
  \<^verbatim>\<open>total_processed\<close>, \<^verbatim>\<open>success_count\<close>).
\<close>

datatype report =
    Error string
  | Success string string "(f32 \<times> f32) option" string
  | Batch "(string \<times> report) list" nat nat

text \<open>\<^verbatim>\<open>r.get("success", False)\<close>\<close>

fun get_success :: "report \<Rightarrow> bool" where
  "get_success (Success _ _ _ _) = True"
| "get_success _ = False"

text \<open>
  The library primitives.  \<open>'fs\<close> is the state of the file system, \<open>'img\<close> a decoded
  image, \<open>'tensor\<close> the network's raw output.
  \<^item> \<open>cv2_imread\<close>: \<^verbatim>\<open>cv2.imread(path)\<close>, \<open>None\<close> when the file cannot be decoded;
  \<^item> \<open>midas_forward\<close>: \<^verbatim>\<open>self.model(self.transform(img_rgb).to(self.device))\<close>;
  \<^item> \<open>interpolate\<close>: the bicubic resize to the given size, \<^verbatim>\<open>squeeze()\<close> and
    \<^verbatim>\<open>.cpu().numpy()\<close>;
  \<^item> \<open>round32\<close>, \<open>uint8_cast\<close>: the rounding to \<^verbatim>\<open>float32\<close> and the cast of a value
    outside the range of eight bits, as described above;
  \<^item> \<open>path_exists\<close>: \<^verbatim>\<open>Path.exists()\<close>, which raises the \<^verbatim>\<open>OSError\<close> of \<^verbatim>\<open>stat\<close>
    unless it says that the path is missing;
  \<^item> \<open>listdir\<close>: the names \<^verbatim>\<open>iterdir()\<close> yields, or the \<^verbatim>\<open>OSError\<close> it raises;
  \<^item> \<open>os_mkdir_p\<close>: what \<^verbatim>\<open>os.makedirs(name, exist_ok=True)\<close> does for a non-empty
    name;
  \<^item> \<open>pil_save\<close>: \<^verbatim>\<open>Image.fromarray(a, mode='L').save(path, 'PNG')\<close>;
  \<^item> \<open>fallback_imports\<close>: the \<^verbatim>\<open>import cv2\<close> and \<^verbatim>\<open>from PIL import Image\<close> inside
    the fallback;
  \<^item> \<open>load_midas\<close>: the two \<^verbatim>\<open>torch.hub.load\<close> calls with \<^verbatim>\<open>to\<close> and \<^verbatim>\<open>eval\<close>;
  \<^item> \<open>dependencies_available\<close>: the module-level flag set by the guarded imports.
\<close>

record ('fs, 'img, 'tensor) depth_env =
  dependencies_available :: bool
  cuda_is_available :: bool
  load_midas :: "exn + unit"
  cv2_imread :: "'fs \<Rightarrow> string \<Rightarrow> exn + 'img option"
  cv2_cvtColor :: "'img \<Rightarrow> exn + 'img"
  img_shape :: "'img \<Rightarrow> nat \<times> nat"
  midas_forward :: "'img \<Rightarrow> exn + 'tensor"
  interpolate :: "'tensor \<Rightarrow> nat \<times> nat \<Rightarrow> exn + f32 list list"
  round32 :: "real \<Rightarrow> f32"
  uint8_cast :: "f32 \<Rightarrow> 8 word"
  os_mkdir_p :: "'fs \<Rightarrow> string \<Rightarrow> exn + 'fs"
  pil_save :: "'fs \<Rightarrow> string \<Rightarrow> 8 word list list \<Rightarrow> exn + 'fs"
  path_exists :: "'fs \<Rightarrow> string \<Rightarrow> exn + bool"
  listdir :: "'fs \<Rightarrow> string \<Rightarrow> exn + string list"
  fallback_imports :: "exn + unit"
  cv2_imread_gray :: "'fs \<Rightarrow> string \<Rightarrow> exn + 'img option"
  cv2_Canny :: "'img \<Rightarrow> exn + 'img"
  invert :: "'img \<Rightarrow> exn + 'img"
  cv2_GaussianBlur :: "'img \<Rightarrow> exn + 'img"
  cv2_imwrite :: "'fs \<Rightarrow> string \<Rightarrow> 'img \<Rightarrow> exn + 'fs"

text \<open>
  \<^verbatim>\<open>os.makedirs(name, exist_ok=True)\<close>.  For the empty name \<^verbatim>\<open>mkdir('')\<close> fails
  with ENOENT and \<^verbatim>\<open>os.path.isdir('')\<close> is false, so \<^verbatim>\<open>FileNotFoundError\<close> is
  raised whatever the file system holds.
\<close>

definition os_makedirs ::
  "('fs, 'img, 'tensor) depth_env \<Rightarrow> 'fs \<Rightarrow> string \<Rightarrow> exn + 'fs" where
  "os_makedirs env fs name =
     (if name = [] then Inl (Exn (''[Errno 2] No such file or directory: '' @ [CHR 0x27, CHR 0x27]))
      else os_mkdir_p env fs name)"

text \<open>
  \<^verbatim>\<open>MiDaSDepthGenerator.generate_depth_map\<close>, the body of its \<^verbatim>\<open>try\<close> block:
  \<open>Inl e\<close> is an exception raised inside it, together with the file system as it
  stands at that point.
\<close>

definition generate_depth_map_try ::
  "('fs, 'img, 'tensor) depth_env \<Rightarrow> 'fs \<Rightarrow> string \<Rightarrow> string \<Rightarrow> (exn + report) \<times> 'fs" where
  "generate_depth_map_try env fs input_path output_path =
     (case cv2_imread env fs input_path of
        Inl e \<Rightarrow> (Inl e, fs)
      | Inr None \<Rightarrow> (Inr (Error (''Could not load image: '' @ input_path)), fs)
      | Inr (Some img) \<Rightarrow>
     (case cv2_cvtColor env img of
        Inl e \<Rightarrow> (Inl e, fs)
      | Inr img_rgb \<Rightarrow>
     (case midas_forward env img_rgb of
        Inl e \<Rightarrow> (Inl e, fs)
      | Inr prediction \<Rightarrow>
     (case interpolate env prediction (img_shape env img_rgb) of
        Inl e \<Rightarrow> (Inl e, fs)
      | Inr depth_map \<Rightarrow>
     (case np_min depth_map of
        Inl e \<Rightarrow> (Inl e, fs)
      | Inr depth_min \<Rightarrow>
     (case np_max depth_map of
        Inl e \<Rightarrow> (Inl e, fs)
      | Inr depth_max \<Rightarrow>
     (case os_makedirs env fs (os_path_dirname output_path) of
        Inl e \<Rightarrow> (Inl e, fs)
      | Inr fs1 \<Rightarrow>
     (case pil_save env fs1 output_path
             (depth_uint8 (round32 env) (uint8_cast env)
                (depth_normalized (round32 env) depth_min depth_max depth_map)) of
        Inl e \<Rightarrow> (Inl e, fs1)
      | Inr fs2 \<Rightarrow>
          (Inr (Success input_path output_path (Some (depth_min, depth_max))
                  ''MiDaS DPT-Hybrid''), fs2)))))))))"

text \<open>The whole method: \<^verbatim>\<open>except Exception as e\<close> turns the exception into a dictionary.\<close>

definition generate_depth_map ::
  "('fs, 'img, 'tensor) depth_env \<Rightarrow> 'fs \<Rightarrow> string \<Rightarrow> string \<Rightarrow> report \<times> 'fs" where
  "generate_depth_map env fs input_path output_path =
     (case generate_depth_map_try env fs input_path output_path of
        (Inl e, fs') \<Rightarrow> (Error (''Depth map generation failed: '' @ str_exn e), fs')
      | (Inr r, fs') \<Rightarrow> (r, fs'))"

text \<open>\<^verbatim>\<open>MiDaSDepthGenerator.process_batch\<close>: the loop over \<^verbatim>\<open>image_files\<close>.\<close>

fun batch_loop ::
  "('fs, 'img, 'tensor) depth_env \<Rightarrow> ppath \<Rightarrow> ppath list \<Rightarrow> (string \<times> report) list \<Rightarrow> 'fs
     \<Rightarrow> (string \<times> report) list \<times> 'fs" where
  "batch_loop env output_path [] results fs = (results, fs)"
| "batch_loop env output_path (img_file # rest) results fs =
     (let output_file = truediv output_path (''depth_'' @ path_stem img_file @ ''.png'');
          (result, fs') = generate_depth_map env fs (path_str img_file) (path_str output_file)
      in batch_loop env output_path rest (results @ [(path_name img_file, result)]) fs')"

definition image_extensions :: "string list" where
  "image_extensions = [''.png'', ''.jpg'', ''.jpeg'', ''.bmp'', ''.tiff'']"

text \<open>
  \<^verbatim>\<open>process_batch\<close> has no \<^verbatim>\<open>try\<close> of its own: an exception of \<^verbatim>\<open>exists()\<close>
  or of \<^verbatim>\<open>iterdir()\<close> leaves it (\<open>Inl\<close>).
\<close>

definition process_batch ::
  "('fs, 'img, 'tensor) depth_env \<Rightarrow> 'fs \<Rightarrow> string \<Rightarrow> string \<Rightarrow> (exn + report) \<times> 'fs" where
  "process_batch env fs input_dir output_dir =
     (let input_path = Path input_dir; output_path = Path output_dir in
      case path_exists env fs (path_str input_path) of
        Inl e \<Rightarrow> (Inl e, fs)
      | Inr False \<Rightarrow> (Inr (Error (''Input directory does not exist: '' @ input_dir)), fs)
      | Inr True \<Rightarrow>
           (case listdir env fs (path_str input_path) of
              Inl e \<Rightarrow> (Inl e, fs)
            | Inr names \<Rightarrow>
               (let image_files = filter (\<lambda>f. lower (path_suffix f) \<in> set image_extensions)
                                         (map (make_child input_path) names)
                in if image_files = []
                   then (Inr (Error ''No image files found in input directory''), fs)
                   else (let (results, fs') = batch_loop env output_path image_files [] fs
                         in (Inr (Batch results (length results)
                                    (length (filter (\<lambda>r. get_success (snd r)) results))),
                             fs')))))"

text \<open>\<^verbatim>\<open>create_fallback_depth_map\<close>: the \<^verbatim>\<open>try\<close> body, then the whole function.\<close>

definition create_fallback_depth_map_try ::
  "('fs, 'img, 'tensor) depth_env \<Rightarrow> 'fs \<Rightarrow> string \<Rightarrow> string \<Rightarrow> (exn + report) \<times> 'fs" where
  "create_fallback_depth_map_try env fs input_path output_path =
     (case fallback_imports env of
        Inl e \<Rightarrow> (Inl e, fs)
      | Inr _ \<Rightarrow>
     (case cv2_imread_gray env fs input_path of
        Inl e \<Rightarrow> (Inl e, fs)
      | Inr None \<Rightarrow> (Inr (Error (''Could not load image: '' @ input_path)), fs)
      | Inr (Some img) \<Rightarrow>
     (case cv2_Canny env img of
        Inl e \<Rightarrow> (Inl e, fs)
      | Inr edges \<Rightarrow>
     (case invert env edges of
        Inl e \<Rightarrow> (Inl e, fs)
      | Inr depth_sim \<Rightarrow>
     (case cv2_GaussianBlur env depth_sim of
        Inl e \<Rightarrow> (Inl e, fs)
      | Inr depth_blur \<Rightarrow>
     (case os_makedirs env fs (os_path_dirname output_path) of
        Inl e \<Rightarrow> (Inl e, fs)
      | Inr fs1 \<Rightarrow>
     (case cv2_imwrite env fs1 output_path depth_blur of
        Inl e \<Rightarrow> (Inl e, fs1)
      | Inr fs2 \<Rightarrow>
          (Inr (Success input_path output_path None
                  ''Fallback Edge-based Depth Simulation''), fs2))))))))"

definition create_fallback_depth_map ::
  "('fs, 'img, 'tensor) depth_env \<Rightarrow> 'fs \<Rightarrow> string \<Rightarrow> string \<Rightarrow> report \<times> 'fs" where
  "create_fallback_depth_map env fs input_path output_path =
     (case create_fallback_depth_map_try env fs input_path output_path of
        (Inl e, fs') \<Rightarrow> (Error (''Fallback depth generation failed: '' @ str_exn e), fs')
      | (Inr r, fs') \<Rightarrow> (r, fs'))"

text \<open>
  The command line after \<^verbatim>\<open>argparse\<close>, and what the process leaves behind: the lines
  and JSON documents printed to standard output, and the exit status.
\<close>

record args =
  arg_input :: string
  arg_output :: "string option"
  arg_batch :: bool

datatype printed = Text string | Json report

text \<open>\<^verbatim>\<open>args.output or d\<close>: a missing or empty value is false.\<close>

definition output_or :: "string option \<Rightarrow> string \<Rightarrow> string" where
  "output_or out d = (case out of None \<Rightarrow> d | Some s \<Rightarrow> if s = [] then d else s)"

text \<open>The automatically generated output path of single-image mode.\<close>

definition auto_output_path :: "string \<Rightarrow> string" where
  "auto_output_path inp =
     path_str (truediv (truediv (path_parent (Path inp)) ''depthmaps'')
                 (''depth_'' @ path_stem (Path inp) @ ''.png''))"

text \<open>
  \<^verbatim>\<open>MiDaSDepthGenerator.__init__\<close> when the dependencies are available: the two lines
  it prints, or the \<^verbatim>\<open>RuntimeError\<close> it raises after the first.
\<close>

definition midas_init ::
  "('fs, 'img, 'tensor) depth_env \<Rightarrow> printed list \<times> (exn + unit)" where
  "midas_init env =
     (let l1 = Text (''Using device: '' @ (if cuda_is_available env then ''cuda'' else ''cpu''))
      in case load_midas env of
           Inl e \<Rightarrow> ([l1], Inl (Exn (''Failed to load MiDaS model: '' @ str_exn e)))
         | Inr _ \<Rightarrow> ([l1, Text ([CHR 0xE2, CHR 0x9C, CHR 0x93]
                                @ '' MiDaS DPT-Hybrid model loaded successfully'')], Inr ()))"

text \<open>\<^verbatim>\<open>main\<close>: the body of its \<^verbatim>\<open>try\<close> up to the value of \<^verbatim>\<open>result\<close>.\<close>

definition main_try ::
  "('fs, 'img, 'tensor) depth_env \<Rightarrow> 'fs \<Rightarrow> args \<Rightarrow> printed list \<times> (exn + report) \<times> 'fs" where
  "main_try env fs a =
     (if dependencies_available env
      then (case midas_init env of
              (out, Inl e) \<Rightarrow> (out, Inl e, fs)
            | (out, Inr _) \<Rightarrow>
                if arg_batch a
                then (let output_dir = output_or (arg_output a)
                            (os_path_join (os_path_dirname (arg_input a)) ''depthmaps'')
                      in (out, process_batch env fs (arg_input a) output_dir))
                else (let output_path = (case arg_output a of
                              None \<Rightarrow> auto_output_path (arg_input a)
                            | Some s \<Rightarrow> if s = [] then auto_output_path (arg_input a) else s);
                          (r, fs') = generate_depth_map env fs (arg_input a) output_path
                      in (out, Inr r, fs')))
      else if arg_batch a
      then ([], Inr (Error ''Batch mode not supported in fallback mode''), fs)
      else (let output_path = output_or (arg_output a) (auto_output_path (arg_input a));
                (r, fs') = create_fallback_depth_map env fs (arg_input a) output_path
            in ([], Inr r, fs')))"

text \<open>\<^verbatim>\<open>main\<close>: standard output, exit status, file system.\<close>

definition main_depth ::
  "('fs, 'img, 'tensor) depth_env \<Rightarrow> 'fs \<Rightarrow> args \<Rightarrow> printed list \<times> int \<times> 'fs" where
  "main_depth env fs a =
     (case main_try env fs a of
        (out, Inl e, fs') \<Rightarrow>
          (out @ [Json (Error (''Script execution failed: '' @ str_exn e))], 1, fs')
      | (out, Inr result, fs') \<Rightarrow> (out @ [Json result], 0, fs'))"

section \<open>Embedding tool (openclip\_embeddings.py)\<close>

text \<open>
  What \<^verbatim>\<open>generate_embedding\<close> returns and \<^verbatim>\<open>main\<close> prints: \<^verbatim>\<open>{"error": msg}\<close> or
  the embedding with its \<^verbatim>\<open>dimensions\<close> and \<^verbatim>\<open>model\<close>.  \<open>'f\<close> is the type of the
  floating-point numbers; their arithmetic belongs to the libraries.
\<close>

datatype 'f embed_result =
    EmbedError string
  | Embedding "'f list" nat string

text \<open>
  The outcome of a module-level import: the module is there, the import raises
  \<^verbatim>\<open>ImportError\<close>, or it raises another exception.
\<close>

datatype import_outcome = Imported | ImportFailed | ImportRaised exn

text \<open>
  The library primitives of the embedding tool.
  \<^item> \<open>numpy_import\<close>: \<^verbatim>\<open>import numpy as np\<close> (line 11, outside any \<^verbatim>\<open>try\<close>);
  \<^item> \<open>pil_import\<close>: \<^verbatim>\<open>from PIL import Image\<close> (lines 13--17);
  \<^item> \<open>openclip_import\<close>: \<^verbatim>\<open>import open_clip\<close> and \<^verbatim>\<open>import torch\<close> (lines 20--25);
  \<^item> \<open>torch_device\<close>: \<^verbatim>\<open>torch.device('cuda' if torch.cuda.is_available() else 'cpu')\<close>;
  \<^item> \<open>create_model\<close>: \<^verbatim>\<open>open_clip.create_model_and_transforms\<close> and \<^verbatim>\<open>eval\<close>;
  \<^item> \<open>a2b_base64\<close>: the decoding proper of \<^verbatim>\<open>base64.b64decode\<close>, applied to a string
    of characters of the base64 alphabet and padding;
  \<^item> \<open>image_open_bytes\<close>: \<^verbatim>\<open>Image.open(BytesIO(data)).convert('RGB')\<close>;
  \<^item> \<open>image_open_path\<close>: \<^verbatim>\<open>Image.open(path).convert('RGB')\<close>;
  \<^item> \<open>encode_image\<close>: preprocessing and \<^verbatim>\<open>self.model.encode_image\<close>, the feature
    values in order;
  \<^item> \<open>torch_norm\<close>, \<open>linalg_norm\<close>, \<open>fdiv\<close>: the two norms and float division;
  \<^item> \<open>resize_tobytes\<close>: \<^verbatim>\<open>np.array(image.resize((224, 224))).tobytes()\<close>;
  \<^item> \<open>md5_hexdigest\<close>: \<^verbatim>\<open>hashlib.md5(data).hexdigest()\<close>;
  \<^item> \<open>normal_sample seed i\<close>: sample number \<open>i\<close> that \<^verbatim>\<open>np.random.normal(0, 1, n)\<close>
    draws right after \<^verbatim>\<open>np.random.seed(seed)\<close>.
\<close>

record ('img, 'f) embed_env =
  numpy_import :: import_outcome
  pil_import :: import_outcome
  openclip_import :: import_outcome
  torch_device :: "exn + unit"
  create_model :: "exn + unit"
  a2b_base64 :: "string \<Rightarrow> exn + 8 word list"
  image_open_bytes :: "8 word list \<Rightarrow> exn + 'img"
  image_open_path :: "string \<Rightarrow> exn + 'img"
  encode_image :: "'img \<Rightarrow> exn + 'f list"
  torch_norm :: "'f list \<Rightarrow> 'f"
  linalg_norm :: "'f list \<Rightarrow> 'f"
  fdiv :: "'f \<Rightarrow> 'f \<Rightarrow> 'f"
  resize_tobytes :: "'img \<Rightarrow> exn + 8 word list"
  md5_hexdigest :: "8 word list \<Rightarrow> string"
  normal_sample :: "nat \<Rightarrow> nat \<Rightarrow> 'f"

text \<open>\<^verbatim>\<open>s.split(',', 1)\<close> unpacked into two names: \<open>None\<close> when there is no comma.\<close>

definition split_once :: "char \<Rightarrow> string \<Rightarrow> (string \<times> string) option" where
  "split_once c s =
     (if c \<in> set s
      then Some (takeWhile (\<lambda>x. x \<noteq> c) s, tl (dropWhile (\<lambda>x. x \<noteq> c) s))
      else None)"

text \<open>
  \<^verbatim>\<open>int(s, 16)\<close> on a string of hexadecimal digits; \<^verbatim>\<open>ValueError\<close> otherwise (a
  hex digest holds nothing but digits, so signs, prefixes and blanks do not occur).
\<close>

definition hex_digit :: "char \<Rightarrow> nat option" where
  "hex_digit c = map_of (zip ''0123456789abcdefABCDEF''
                   [0, 1, 2, 3, 4, 5, 6, 7, 8, 9, 10, 11, 12, 13, 14, 15, 10, 11, 12, 13, 14, 15]) c"

fun int16_acc :: "nat \<Rightarrow> string \<Rightarrow> nat option" where
  "int16_acc acc [] = Some acc"
| "int16_acc acc (c # cs) =
     (case hex_digit c of None \<Rightarrow> None | Some d \<Rightarrow> int16_acc (16 * acc + d) cs)"

definition int16 :: "string \<Rightarrow> exn + nat" where
  "int16 s =
     (case (if s = [] then None else int16_acc 0 s) of
        None \<Rightarrow> Inl (Exn (''invalid literal for int() with base 16: '' @ s))
      | Some n \<Rightarrow> Inr n)"

text \<open>
  \<^verbatim>\<open>base64.b64decode(s)\<close> on a string: a character outside ASCII raises
  \<^verbatim>\<open>ValueError\<close>; otherwise the characters that are neither in the base64 alphabet
  nor padding are discarded, and the rest is decoded.
\<close>

definition b64_alphabet :: string where
  "b64_alphabet = ''ABCDEFGHIJKLMNOPQRSTUVWXYZabcdefghijklmnopqrstuvwxyz0123456789+/=''"

definition b64decode :: "('img, 'f) embed_env \<Rightarrow> string \<Rightarrow> exn + 8 word list" where
  "b64decode env s =
     (if list_ex digit7 s
      then Inl (Exn ''string argument should contain only ASCII characters'')
      else a2b_base64 env (filter (\<lambda>c. c \<in> set b64_alphabet) s))"

text \<open>The three ways the argument is turned into an image (lines 60--71).\<close>

definition decode_base64_image :: "('img, 'f) embed_env \<Rightarrow> string \<Rightarrow> exn + 'img" where
  "decode_base64_image env encoded =
     (case b64decode env encoded of
        Inl e \<Rightarrow> Inl e
      | Inr image_data \<Rightarrow> image_open_bytes env image_data)"

definition load_image :: "('img, 'f) embed_env \<Rightarrow> string \<Rightarrow> exn + 'img" where
  "load_image env image_path_or_base64 =
     (if startswith image_path_or_base64 ''data:image''
      then (case split_once (CHR '','') image_path_or_base64 of
              None \<Rightarrow> Inl (Exn ''not enough values to unpack (expected 2, got 1)'')
            | Some (header, encoded) \<Rightarrow> decode_base64_image env encoded)
      else if startswith image_path_or_base64 ''/'' \<or> startswith image_path_or_base64 ''./''
      then image_open_path env image_path_or_base64
      else decode_base64_image env image_path_or_base64)"

text \<open>The real-model branch (lines 75--90) and the fallback branch (lines 93--108).\<close>

definition real_embedding :: "('img, 'f) embed_env \<Rightarrow> 'img \<Rightarrow> exn + 'f embed_result" where
  "real_embedding env img =
     (case encode_image env img of
        Inl e \<Rightarrow> Inl e
      | Inr image_features \<Rightarrow>
          (let embedding = map (\<lambda>x. fdiv env x (torch_norm env image_features)) image_features
           in Inr (Embedding embedding (length embedding) ''OpenCLIP ViT-H/14'')))"

definition fallback_embedding :: "('img, 'f) embed_env \<Rightarrow> 'img \<Rightarrow> exn + 'f embed_result" where
  "fallback_embedding env img =
     (case resize_tobytes env img of
        Inl e \<Rightarrow> Inl e
      | Inr img_bytes \<Rightarrow>
     (case int16 (take 8 (md5_hexdigest env img_bytes)) of
        Inl e \<Rightarrow> Inl e
      | Inr seed \<Rightarrow>
          (let embedding = map (normal_sample env seed) [0 ..< 1024];
               embedding = map (\<lambda>x. fdiv env x (linalg_norm env embedding)) embedding
           in Inr (Embedding embedding 1024
                     ''Fallback 1024D (install open-clip-torch for real OpenCLIP)''))))"

text \<open>
  \<^verbatim>\<open>OpenCLIPEmbedder.generate_embedding\<close>; \<open>fallback\<close> is \<^verbatim>\<open>self.fallback\<close>.
\<close>

definition generate_embedding_try ::
  "('img, 'f) embed_env \<Rightarrow> bool \<Rightarrow> string \<Rightarrow> exn + 'f embed_result" where
  "generate_embedding_try env fallback image_path_or_base64 =
     (case load_image env image_path_or_base64 of
        Inl e \<Rightarrow> Inl e
      | Inr img \<Rightarrow>
          if \<not> fallback then real_embedding env img else fallback_embedding env img)"

definition generate_embedding ::
  "('img, 'f) embed_env \<Rightarrow> bool \<Rightarrow> string \<Rightarrow> 'f embed_result" where
  "generate_embedding env fallback image_path_or_base64 =
     (case generate_embedding_try env fallback image_path_or_base64 of
        Inl e \<Rightarrow> EmbedError (''Failed to generate embedding: '' @ str_exn e)
      | Inr r \<Rightarrow> r)"

text \<open>
  \<^verbatim>\<open>OpenCLIPEmbedder.__init__\<close>, given \<^verbatim>\<open>OPENCLIP_AVAILABLE\<close>: \<open>Inr fallback\<close>, or
  \<open>Inl\<close> what the process prints and its exit status when it ends there.  The device
  is created outside the \<^verbatim>\<open>try\<close>, so an exception there is not caught; a failure to
  load the model is printed before \<^verbatim>\<open>sys.exit(1)\<close>.
\<close>

definition embedder_init ::
  "('img, 'f) embed_env \<Rightarrow> bool \<Rightarrow> ('f embed_result list \<times> int) + bool" where
  "embedder_init env openclip_available =
     (if openclip_available
      then (case torch_device env of
              Inl e \<Rightarrow> Inl ([], 1)
            | Inr _ \<Rightarrow>
           (case create_model env of
              Inl e \<Rightarrow> Inl ([EmbedError (''Failed to load OpenCLIP model: '' @ str_exn e)], 1)
            | Inr _ \<Rightarrow> Inr False))
      else Inr True)"

text \<open>\<^verbatim>\<open>main\<close>; \<open>argv\<close> is \<^verbatim>\<open>sys.argv\<close>, program name included.\<close>

definition embed_main_body ::
  "('img, 'f) embed_env \<Rightarrow> bool \<Rightarrow> string list \<Rightarrow> 'f embed_result list \<times> int" where
  "embed_main_body env openclip_available argv =
     (if length argv \<noteq> 2
      then ([EmbedError ''Usage: python openclip_embeddings.py <image_path_or_base64>''], 1)
      else (case embedder_init env openclip_available of
              Inl ended \<Rightarrow> ended
            | Inr fallback \<Rightarrow> ([generate_embedding env fallback (argv ! 1)], 0)))"

text \<open>
  The script from its first import to the end of \<^verbatim>\<open>main\<close>: the JSON documents printed
  to standard output and the exit status.  An exception that nothing catches ends the
  process with status 1 and prints no document.
\<close>

definition embed_main ::
  "('img, 'f) embed_env \<Rightarrow> string list \<Rightarrow> 'f embed_result list \<times> int" where
  "embed_main env argv =
     (case numpy_import env of
        ImportFailed \<Rightarrow> ([], 1)
      | ImportRaised e \<Rightarrow> ([], 1)
      | Imported \<Rightarrow>
     (case pil_import env of
        ImportFailed \<Rightarrow> ([EmbedError ''PIL/Pillow not installed''], 1)
      | ImportRaised e \<Rightarrow> ([], 1)
      | Imported \<Rightarrow>
     (case openclip_import env of
        ImportRaised e \<Rightarrow> ([], 1)
      | ImportFailed \<Rightarrow> embed_main_body env False argv
      | Imported \<Rightarrow> embed_main_body env True argv)))"

section \<open>Concrete environments\<close>

text \<open>
  A small world to run the depth tool in: the file system is the list of the paths
  that exist, a path with a suffix being a regular file; a path with a component of
  more than 255 characters makes \<^verbatim>\<open>stat\<close> fail with \<^verbatim>\<open>ENAMETOOLONG\<close>; an image is
  its shape, every stored image decodes except \<^verbatim>\<open>charts/b.jpeg\<close>; the network answers
  with a fixed array whose normalisation is exact in \<^verbatim>\<open>float32\<close>.
\<close>

definition demo_env :: "(string list, nat \<times> nat, f32 list list) depth_env" where
  "demo_env =
     \<lparr>dependencies_available = True,
      cuda_is_available = False,
      load_midas = Inr (),
      cv2_imread = (\<lambda>fs p. Inr (if p \<in> set fs \<and> p \<noteq> ''charts/b.jpeg'' then Some (2, 3) else None)),
      cv2_cvtColor = Inr,
      img_shape = (\<lambda>s. s),
      midas_forward = (\<lambda>_. Inr [[Finite 1, Finite 3, Finite 5], [Finite 5, Finite 3, Finite 1]]),
      interpolate = (\<lambda>t _. Inr t),
      round32 = Finite,
      uint8_cast = (\<lambda>_. 0),
      os_mkdir_p = (\<lambda>fs d. Inr (fs @ [d])),
      pil_save = (\<lambda>fs p _. Inr (fs @ [p])),
      path_exists = (\<lambda>fs p. if list_ex (\<lambda>w. 255 < length w) (split_on (CHR ''/'') p)
                             then Inl (Exn ''[Errno 36] File name too long'')
                             else Inr (p \<in> set fs)),
      listdir = (\<lambda>fs d. if name_suffix d \<noteq> []
                         then Inl (Exn (''[Errno 20] Not a directory: ''
                                        @ [CHR 0x27] @ d @ [CHR 0x27]))
                         else Inr (map (drop (length d + 1))
                                     (filter (\<lambda>p. os_path_dirname p = d) fs))),
      fallback_imports = Inr (),
      cv2_imread_gray = (\<lambda>fs p. Inr (if p \<in> set fs \<and> p \<noteq> ''charts/b.jpeg'' then Some (2, 3) else None)),
      cv2_Canny = Inr,
      invert = Inr,
      cv2_GaussianBlur = Inr,
      cv2_imwrite = (\<lambda>fs p _. Inr (fs @ [p]))\<rparr>"

definition demo_fs :: "string list" where
  "demo_fs = [''charts'', ''charts/a.PNG'', ''charts/notes.txt'', ''charts/b.jpeg'',
              ''docs'', ''docs/notes.txt'', ''chart.png'']"

text \<open>
  A small world for the embedding tool: an image is the list of its bytes, base64
  decoding accepts \<^verbatim>\<open>QUJD\<close> (the bytes of \<^verbatim>\<open>ABC\<close>) only, the one file is
  \<^verbatim>\<open>/data/abc.png\<close> with the same content, numbers are integers, and
  \<^verbatim>\<open>open_clip\<close> is not installed.
\<close>

definition demo_embed_env :: "(8 word list, int) embed_env" where
  "demo_embed_env =
     \<lparr>numpy_import = Imported,
      pil_import = Imported,
      openclip_import = ImportFailed,
      torch_device = Inr (),
      create_model = Inl (Exn ''model file not found''),
      a2b_base64 = (\<lambda>s. if s = ''QUJD'' then Inr [65, 66, 67] else Inl (Exn ''Incorrect padding'')),
      image_open_bytes = Inr,
      image_open_path = (\<lambda>p. if p = ''/data/abc.png'' then Inr [65, 66, 67]
                              else Inl (Exn (''[Errno 2] No such file or directory: ''
                                             @ [CHR 0x27] @ p @ [CHR 0x27]))),
      encode_image = (\<lambda>_. Inr [3, 4]),
      torch_norm = (\<lambda>_. 1),
      linalg_norm = (\<lambda>_. 1),
      fdiv = (\<lambda>x y. x div y),
      resize_tobytes = Inr,
      md5_hexdigest = (\<lambda>_. ''902fbdd2b1df0c4f70b4a5d23525e932''),
      normal_sample = (\<lambda>seed i. int i)\<rparr>"

text \<open>
  The same world with a real picture: the fourteen bytes of a binary PPM file of one
  black pixel (\<^verbatim>\<open>P6 1 1 255\<close>, a line feed, three zero bytes), whose base64 encoding is
  \<^verbatim>\<open>UDYgMSAxIDI1NQoAAAA=\<close>; nothing else is an image.
\<close>

definition ppm_bytes :: "8 word list" where
  "ppm_bytes = [80, 54, 32, 49, 32, 49, 32, 50, 53, 53, 10, 0, 0, 0]"

definition ppm_embed_env :: "(8 word list, int) embed_env" where
  "ppm_embed_env =
     demo_embed_env
       \<lparr>a2b_base64 := (\<lambda>s. if s = ''UDYgMSAxIDI1NQoAAAA='' then Inr ppm_bytes
                            else Inl (Exn ''Incorrect padding'')),
        image_open_bytes := (\<lambda>b. if b = ppm_bytes then Inr b
                                  else Inl (Exn ''cannot identify image file''))\<rparr>"

text \<open>Whether a printed document is an embedding.\<close>

fun is_embedding :: "'f embed_result \<Rightarrow> bool" where
  "is_embedding (Embedding _ _ _) = True"
| "is_embedding (EmbedError _) = False"

section \<open>Auxiliary facts\<close>


lemma astype_uint8_zero: "astype_uint8 cast (f32_mul rnd (Finite 0) (Finite 255)) = 0"
  by (simp add: astype_uint8_def f32_result_def trunc_def)





lemma split_on_replicate: "x \<noteq> c \<Longrightarrow> split_on c (replicate n x) = [replicate n x]"
  by (induction n) auto

lemma long_name_not_dot: "replicate 300 (CHR ''x'') \<noteq> ''.''"
proof
  assume "replicate 300 (CHR ''x'') = ''.''"
  then have "length (replicate 300 (CHR ''x'')) = length ''.''" by (rule arg_cong)
  then show False by simp
qed

lemma path_str_long_name:
  "path_str (Path (replicate 300 (CHR ''x''))) = replicate 300 (CHR ''x'')"
  by (simp add: path_str_def Path_def path_root_def split_on_replicate takeWhile_replicate
      long_name_not_dot)

lemma path_name_make_child: "path_name (make_child p n) = n"
  by (simp add: path_name_def make_child_def)

lemma path_suffix_make_child: "path_suffix (make_child p n) = name_suffix n"
  by (simp add: path_suffix_def path_name_make_child)

lemma batch_loop_appends:
  "\<exists>rs fs'. batch_loop env outp files acc fs = (acc @ rs, fs') \<and> map fst rs = map path_name files"
proof (induction files arbitrary: acc fs)
  case Nil
  show ?case by simp
next
  case (Cons f files)
  obtain result fs1 where g: "generate_depth_map env fs (path_str f)
      (path_str (truediv outp (''depth_'' @ path_stem f @ ''.png''))) = (result, fs1)"
    by (cases "generate_depth_map env fs (path_str f)
      (path_str (truediv outp (''depth_'' @ path_stem f @ ''.png'')))") blast
  from Cons.IH [of "acc @ [(path_name f, result)]" fs1]
  obtain rs fs' where
    "batch_loop env outp files (acc @ [(path_name f, result)]) fs1 = ((acc @ [(path_name f, result)]) @ rs, fs')"
    and "map fst rs = map path_name files" by blast
  then have "batch_loop env outp (f # files) acc fs = (acc @ ((path_name f, result) # rs), fs')
      \<and> map fst ((path_name f, result) # rs) = map path_name (f # files)"
    using g by simp
  then show ?case by blast
qed

lemma image_files_eq:
  "filter (\<lambda>f. lower (path_suffix f) \<in> set image_extensions) (map (make_child p) names)
   = map (make_child p) (filter (\<lambda>n. lower (name_suffix n) \<in> set image_extensions) names)"
  by (simp add: filter_map comp_def path_suffix_make_child)

lemma generate_depth_map_bare_name:
  "\<exists>m. generate_depth_map env fs inp ''depth.png'' = (Error m, fs)"
  by (simp add: generate_depth_map_def generate_depth_map_try_def os_makedirs_def
      os_path_dirname_def split: sum.splits option.splits)

lemma create_fallback_bare_name:
  "\<exists>m. create_fallback_depth_map env fs inp ''depth.png'' = (Error m, fs)"
  by (simp add: create_fallback_depth_map_def create_fallback_depth_map_try_def os_makedirs_def
      os_path_dirname_def split: sum.splits option.splits)

lemmas demo_simps = demo_env_def demo_fs_def generate_depth_map_def generate_depth_map_try_def
  os_makedirs_def os_path_dirname_def np_min_def np_max_def rstrip_slash_def
  f32_minimum_def f32_maximum_def

lemmas path_simps = auto_output_path_def path_str_def truediv_def Path_def path_parent_def
  path_stem_def path_name_def name_stem_def name_suffix_def startswith_def path_suffix_def
  make_child_def lower_def lower_char_def image_extensions_def output_or_def path_root_def

lemma split_once_first:
  "c \<notin> set h \<Longrightarrow> split_once c (h @ c # t) = Some (h, t)"
  by (induction h) (auto simp: split_once_def)

lemma b64decode_discards:
  "\<not> list_ex digit7 s \<Longrightarrow>
     b64decode env s = a2b_base64 env (filter (\<lambda>c. c \<in> set b64_alphabet) s)"
  by (simp add: b64decode_def)

lemma generate_embedding_fallback_value:
  assumes "load_image env s = Inr img" and "resize_tobytes env img = Inr bytes"
    and "int16 (take 8 (md5_hexdigest env bytes)) = Inr seed"
  shows "generate_embedding env True s
           = Embedding
               (map (\<lambda>x. fdiv env x (linalg_norm env (map (normal_sample env seed) [0 ..< 1024])))
                    (map (normal_sample env seed) [0 ..< 1024]))
               1024 ''Fallback 1024D (install open-clip-torch for real OpenCLIP)''"
  using assms
  by (simp add: generate_embedding_def generate_embedding_try_def fallback_embedding_def)

section \<open>The claims\<close>



text \<open>
  Claim C5.  The single-image operation always returns a dictionary: the error
  \<^verbatim>\<open>Could not load image: <path>\<close>, an error \<^verbatim>\<open>Depth map generation failed: <str(e)>\<close>
  made from an exception \<open>e\<close> raised inside, or the success record.  It returns the
  success record only if reading, colour conversion, the model, the resize, both
  reductions, the directory creation and the write have all succeeded; a failure of any
  of them therefore ends in one of the two error dictionaries.
\<close>

theorem generate_depth_map_structured:
  "(fst (generate_depth_map env fs inp outp) = Error (''Could not load image: '' @ inp)
    \<or> (\<exists>e. fst (generate_depth_map env fs inp outp)
             = Error (''Depth map generation failed: '' @ str_exn e))
    \<or> (\<exists>lo hi. fst (generate_depth_map env fs inp outp)
             = Success inp outp (Some (lo, hi)) ''MiDaS DPT-Hybrid''))
   \<and> (get_success (fst (generate_depth_map env fs inp outp)) \<longrightarrow>
        (\<exists>img rgb t dm lo hi fs1 fs2.
            cv2_imread env fs inp = Inr (Some img) \<and> cv2_cvtColor env img = Inr rgb
          \<and> midas_forward env rgb = Inr t \<and> interpolate env t (img_shape env rgb) = Inr dm
          \<and> np_min dm = Inr lo \<and> np_max dm = Inr hi
          \<and> os_makedirs env fs (os_path_dirname outp) = Inr fs1
          \<and> pil_save env fs1 outp
                (depth_uint8 (round32 env) (uint8_cast env)
                   (depth_normalized (round32 env) lo hi dm)) = Inr fs2))"
  by (simp add: generate_depth_map_def generate_depth_map_try_def
      split: sum.splits option.splits) blast

theorem generate_depth_map_structured_witness:
  "get_success (fst (generate_depth_map demo_env demo_fs ''chart.png'' ''out/depth.png''))
   \<and> (\<exists>img rgb t dm lo hi fs1 fs2.
            cv2_imread demo_env demo_fs ''chart.png'' = Inr (Some img)
          \<and> cv2_cvtColor demo_env img = Inr rgb
          \<and> midas_forward demo_env rgb = Inr t
          \<and> interpolate demo_env t (img_shape demo_env rgb) = Inr dm
          \<and> np_min dm = Inr lo \<and> np_max dm = Inr hi
          \<and> os_makedirs demo_env demo_fs (os_path_dirname ''out/depth.png'') = Inr fs1
          \<and> pil_save demo_env fs1 ''out/depth.png''
                (depth_uint8 (round32 demo_env) (uint8_cast demo_env)
                   (depth_normalized (round32 demo_env) lo hi dm)) = Inr fs2)"
proof -
  have h: "get_success (fst (generate_depth_map demo_env demo_fs ''chart.png'' ''out/depth.png''))"
    by (simp add: demo_simps)
  with generate_depth_map_structured [of demo_env demo_fs "''chart.png''" "''out/depth.png''"]
  show ?thesis by blast
qed


text \<open>
  Claim C9.  With \<^verbatim>\<open>--input chart.png --output depth.png\<close> the tool prints an error
  dictionary and leaves the file system as it was, in every environment and in both
  modes: \<^verbatim>\<open>os.path.dirname('depth.png')\<close> is empty and \<^verbatim>\<open>os.makedirs('')\<close> raises.
  In the concrete world, where \<^verbatim>\<open>chart.png\<close> decodes and the model answers, the
  printed error is that of \<^verbatim>\<open>makedirs\<close> and no \<^verbatim>\<open>depth.png\<close> appears.
\<close>

theorem main_depth_bare_output_name:
  "(\<exists>out m code. main_depth env fs
        \<lparr>arg_input = ''chart.png'', arg_output = Some ''depth.png'', arg_batch = False\<rparr>
      = (out @ [Json (Error m)], code, fs))
   \<and> main_depth demo_env demo_fs
        \<lparr>arg_input = ''chart.png'', arg_output = Some ''depth.png'', arg_batch = False\<rparr>
      = ([Text ''Using device: cpu'',
          Text ([CHR 0xE2, CHR 0x9C, CHR 0x93] @ '' MiDaS DPT-Hybrid model loaded successfully''),
          Json (Error (''Depth map generation failed: [Errno 2] No such file or directory: ''
                       @ [CHR 0x27, CHR 0x27]))],
         0, demo_fs)"
proof
  let ?a = "\<lparr>arg_input = ''chart.png'', arg_output = Some ''depth.png'', arg_batch = False\<rparr>"
  obtain m1 where g: "generate_depth_map env fs ''chart.png'' ''depth.png'' = (Error m1, fs)"
    using generate_depth_map_bare_name [of env fs "''chart.png''"] by blast
  obtain m2 where f: "create_fallback_depth_map env fs ''chart.png'' ''depth.png'' = (Error m2, fs)"
    using create_fallback_bare_name [of env fs "''chart.png''"] by blast
  show "\<exists>out m code. main_depth env fs ?a = (out @ [Json (Error m)], code, fs)"
  proof (cases "dependencies_available env")
    case False
    then have "main_depth env fs ?a = ([] @ [Json (Error m2)], 0, fs)"
      using f by (simp add: main_depth_def main_try_def output_or_def)
    then show ?thesis by blast
  next
    case True
    show ?thesis
    proof (cases "load_midas env")
      case (Inl e)
      with True have "main_depth env fs ?a =
          ([Text (''Using device: '' @ (if cuda_is_available env then ''cuda'' else ''cpu''))]
           @ [Json (Error (''Script execution failed: '' @ str_exn (Exn (''Failed to load MiDaS model: '' @ str_exn e))))],
           1, fs)"
        by (simp add: main_depth_def main_try_def midas_init_def)
      then show ?thesis by blast
    next
      case (Inr u)
      with True have "main_depth env fs ?a =
          ([Text (''Using device: '' @ (if cuda_is_available env then ''cuda'' else ''cpu'')),
            Text ([CHR 0xE2, CHR 0x9C, CHR 0x93] @ '' MiDaS DPT-Hybrid model loaded successfully'')]
           @ [Json (Error m1)], 0, fs)"
        using g by (simp add: main_depth_def main_try_def midas_init_def)
      then show ?thesis by blast
    qed
  qed
next
  show "main_depth demo_env demo_fs
        \<lparr>arg_input = ''chart.png'', arg_output = Some ''depth.png'', arg_batch = False\<rparr>
      = ([Text ''Using device: cpu'',
          Text ([CHR 0xE2, CHR 0x9C, CHR 0x93] @ '' MiDaS DPT-Hybrid model loaded successfully''),
          Json (Error (''Depth map generation failed: [Errno 2] No such file or directory: ''
                       @ [CHR 0x27, CHR 0x27]))],
         0, demo_fs)"
    by (simp add: main_depth_def main_try_def midas_init_def demo_simps)
qed

text \<open>
  Claim C10.  When the dependencies are unavailable, \<^verbatim>\<open>--batch\<close> makes the tool print
  \<^verbatim>\<open>{"error": "Batch mode not supported in fallback mode"}\<close>, exit with status 0 and
  touch nothing, whereas without \<^verbatim>\<open>--batch\<close> it prints what
  \<^verbatim>\<open>create_fallback_depth_map\<close> returns for the single image.
\<close>

theorem fallback_batch_unsupported:
  assumes "\<not> dependencies_available env"
  shows "main_depth env fs (a\<lparr>arg_batch := True\<rparr>)
           = ([Json (Error ''Batch mode not supported in fallback mode'')], 0, fs)
       \<and> main_depth env fs (a\<lparr>arg_batch := False\<rparr>)
           = ([Json (fst (create_fallback_depth_map env fs (arg_input a)
                            (output_or (arg_output a) (auto_output_path (arg_input a)))))],
              0,
              snd (create_fallback_depth_map env fs (arg_input a)
                     (output_or (arg_output a) (auto_output_path (arg_input a)))))"
  using assms by (simp add: main_depth_def main_try_def split: prod.splits)

theorem fallback_batch_unsupported_witness:
  "\<not> dependencies_available (demo_env\<lparr>dependencies_available := False\<rparr>)
   \<and> main_depth (demo_env\<lparr>dependencies_available := False\<rparr>) demo_fs
        \<lparr>arg_input = ''chart.png'', arg_output = None, arg_batch = True\<rparr>
       = ([Json (Error ''Batch mode not supported in fallback mode'')], 0, demo_fs)
   \<and> main_depth (demo_env\<lparr>dependencies_available := False\<rparr>) demo_fs
        \<lparr>arg_input = ''chart.png'', arg_output = None, arg_batch = False\<rparr>
       = ([Json (Success ''chart.png'' ''depthmaps/depth_chart.png'' None
                   ''Fallback Edge-based Depth Simulation'')], 0,
          demo_fs @ [''depthmaps'', ''depthmaps/depth_chart.png''])"
proof -
  have h: "\<not> dependencies_available (demo_env\<lparr>dependencies_available := False\<rparr>)" by simp
  have c: "create_fallback_depth_map (demo_env\<lparr>dependencies_available := False\<rparr>) demo_fs
             ''chart.png'' ''depthmaps/depth_chart.png''
           = (Success ''chart.png'' ''depthmaps/depth_chart.png'' None
                ''Fallback Edge-based Depth Simulation'',
              demo_fs @ [''depthmaps'', ''depthmaps/depth_chart.png''])"
    by (simp add: create_fallback_depth_map_def create_fallback_depth_map_try_def demo_simps)
  have p: "output_or None (auto_output_path ''chart.png'') = ''depthmaps/depth_chart.png''"
    by (simp add: path_simps)
  from fallback_batch_unsupported [OF h, of demo_fs
      "\<lparr>arg_input = ''chart.png'', arg_output = None, arg_batch = True\<rparr>"] h c p
  show ?thesis by simp
qed

text \<open>
  Claim C3 as stated, at a directory with no recognised file (N = 0) and one other
  file (M = 1): the batch operation returns the error dictionary, which has neither
  \<^verbatim>\<open>batch_results\<close> nor \<^verbatim>\<open>success_count\<close>.
\<close>

theorem process_batch_no_images_counterexample:
  "path_exists demo_env demo_fs ''docs'' = Inr True
   \<and> listdir demo_env demo_fs ''docs'' = Inr [''notes.txt'']
   \<and> process_batch demo_env demo_fs ''docs'' ''out''
       = (Inr (Error ''No image files found in input directory''), demo_fs)"
  by (simp add: process_batch_def path_simps demo_simps)

text \<open>
  Claim C3, amended: for every existing directory whose listing holds at least one name
  with a recognised extension, the batch operation returns a report whose
  \<^verbatim>\<open>batch_results\<close> has exactly one entry per recognised name, in the order of the
  listing (the other names are skipped), whose \<^verbatim>\<open>total_processed\<close> is the number of
  entries and whose \<^verbatim>\<open>success_count\<close> is the number of entries with a successful
  result.
\<close>

theorem process_batch_entries:
  assumes "path_exists env fs (path_str (Path d)) = Inr True"
    and "listdir env fs (path_str (Path d)) = Inr names"
    and "filter (\<lambda>n. lower (name_suffix n) \<in> set image_extensions) names \<noteq> []"
  shows "\<exists>results fs'.
           process_batch env fs d out
             = (Inr (Batch results (length results)
                       (length (filter (\<lambda>r. get_success (snd r)) results))), fs')
         \<and> map fst results = filter (\<lambda>n. lower (name_suffix n) \<in> set image_extensions) names
         \<and> length results
             = length (filter (\<lambda>n. lower (name_suffix n) \<in> set image_extensions) names)"
proof -
  let ?rec = "filter (\<lambda>n. lower (name_suffix n) \<in> set image_extensions) names"
  let ?files = "map (make_child (Path d)) ?rec"
  obtain rs fs' where b: "batch_loop env (Path out) ?files [] fs = ([] @ rs, fs')"
    and m: "map fst rs = map path_name ?files"
    using batch_loop_appends [of env "Path out" ?files "[]" fs] by blast
  have n: "map path_name ?files = ?rec"
    by (simp add: comp_def path_name_make_child)
  have "process_batch env fs d out
          = (Inr (Batch rs (length rs) (length (filter (\<lambda>r. get_success (snd r)) rs))), fs')"
    using assms b by (simp add: process_batch_def image_files_eq)
  moreover have "map fst rs = ?rec" using m n by simp
  moreover then have "length rs = length ?rec" by (metis length_map)
  ultimately show ?thesis by blast
qed

theorem process_batch_entries_witness:
  "path_exists demo_env demo_fs (path_str (Path ''charts'')) = Inr True
   \<and> listdir demo_env demo_fs (path_str (Path ''charts'')) = Inr [''a.PNG'', ''notes.txt'', ''b.jpeg'']
   \<and> filter (\<lambda>n. lower (name_suffix n) \<in> set image_extensions) [''a.PNG'', ''notes.txt'', ''b.jpeg'']
       = [''a.PNG'', ''b.jpeg'']
   \<and> (\<exists>results fs'.
           process_batch demo_env demo_fs ''charts'' ''out''
             = (Inr (Batch results (length results)
                       (length (filter (\<lambda>r. get_success (snd r)) results))), fs')
         \<and> map fst results = [''a.PNG'', ''b.jpeg'']
         \<and> length results = length [''a.PNG'', ''b.jpeg''])"
proof -
  have h1: "path_exists demo_env demo_fs (path_str (Path ''charts'')) = Inr True"
    by (simp add: path_simps demo_simps)
  have h2: "listdir demo_env demo_fs (path_str (Path ''charts'')) = Inr [''a.PNG'', ''notes.txt'', ''b.jpeg'']"
    by (simp add: path_simps demo_simps)
  have f: "filter (\<lambda>n. lower (name_suffix n) \<in> set image_extensions) [''a.PNG'', ''notes.txt'', ''b.jpeg'']
       = [''a.PNG'', ''b.jpeg'']"
    by (simp add: path_simps)
  then have h3: "filter (\<lambda>n. lower (name_suffix n) \<in> set image_extensions) [''a.PNG'', ''notes.txt'', ''b.jpeg''] \<noteq> []"
    by simp
  from process_batch_entries [OF h1 h2 h3, of "''out''", unfolded f] h1 h2 f
  show ?thesis by blast
qed

text \<open>
  Claim C4 as stated, in the concrete world: for \<^verbatim>\<open>chart.png\<close>, which exists and is
  a regular file, \<^verbatim>\<open>iterdir()\<close> raises and the exception leaves \<^verbatim>\<open>process_batch\<close>
  (\<^verbatim>\<open>main\<close> then reports it and exits with status 1); for a name of 300 characters,
  which no directory has, \<^verbatim>\<open>exists()\<close> itself raises.
\<close>

theorem process_batch_raises_counterexample:
  "path_exists demo_env demo_fs (path_str (Path ''chart.png'')) = Inr True
   \<and> process_batch demo_env demo_fs ''chart.png'' ''depthmaps''
       = (Inl (Exn (''[Errno 20] Not a directory: '' @ [CHR 0x27] @ ''chart.png'' @ [CHR 0x27])),
          demo_fs)
   \<and> main_depth demo_env demo_fs
        \<lparr>arg_input = ''chart.png'', arg_output = None, arg_batch = True\<rparr>
       = ([Text ''Using device: cpu'',
           Text ([CHR 0xE2, CHR 0x9C, CHR 0x93] @ '' MiDaS DPT-Hybrid model loaded successfully''),
           Json (Error (''Script execution failed: [Errno 20] Not a directory: ''
                        @ [CHR 0x27] @ ''chart.png'' @ [CHR 0x27]))],
          1, demo_fs)
   \<and> path_exists demo_env demo_fs (path_str (Path (replicate 300 (CHR ''x''))))
       = Inl (Exn ''[Errno 36] File name too long'')
   \<and> process_batch demo_env demo_fs (replicate 300 (CHR ''x'')) ''depthmaps''
       = (Inl (Exn ''[Errno 36] File name too long''), demo_fs)"
proof -
  have e: "path_exists demo_env demo_fs ''chart.png'' = Inr True"
    by (simp add: demo_env_def demo_fs_def)
  have p: "path_str (Path ''chart.png'') = ''chart.png''"
    by (simp add: path_simps)
  have l: "listdir demo_env demo_fs ''chart.png''
       = Inl (Exn (''[Errno 20] Not a directory: '' @ [CHR 0x27] @ ''chart.png'' @ [CHR 0x27]))"
    by (simp add: demo_env_def name_suffix_def)
  have b: "process_batch demo_env demo_fs ''chart.png'' ''depthmaps''
       = (Inl (Exn (''[Errno 20] Not a directory: '' @ [CHR 0x27] @ ''chart.png'' @ [CHR 0x27])),
          demo_fs)"
    by (simp add: process_batch_def p e l)
  have d: "output_or None (os_path_join (os_path_dirname ''chart.png'') ''depthmaps'') = ''depthmaps''"
    by (simp add: output_or_def os_path_join_def os_path_dirname_def startswith_def)
  have i: "midas_init demo_env
       = ([Text ''Using device: cpu'',
           Text ([CHR 0xE2, CHR 0x9C, CHR 0x93] @ '' MiDaS DPT-Hybrid model loaded successfully'')],
          Inr ())"
    by (simp add: midas_init_def demo_env_def)
  have a: "dependencies_available demo_env" by (simp add: demo_env_def)
  have m: "main_depth demo_env demo_fs
        \<lparr>arg_input = ''chart.png'', arg_output = None, arg_batch = True\<rparr>
       = ([Text ''Using device: cpu'',
           Text ([CHR 0xE2, CHR 0x9C, CHR 0x93] @ '' MiDaS DPT-Hybrid model loaded successfully''),
           Json (Error (''Script execution failed: [Errno 20] Not a directory: ''
                        @ [CHR 0x27] @ ''chart.png'' @ [CHR 0x27]))],
          1, demo_fs)"
    by (simp add: main_depth_def main_try_def a i d b)
  have x: "path_exists demo_env demo_fs (replicate 300 (CHR ''x''))
       = Inl (Exn ''[Errno 36] File name too long'')"
    by (simp add: demo_env_def split_on_replicate)
  have y: "process_batch demo_env demo_fs (replicate 300 (CHR ''x'')) ''depthmaps''
       = (Inl (Exn ''[Errno 36] File name too long''), demo_fs)"
    by (simp add: process_batch_def path_str_long_name x)
  show ?thesis
    by (simp only: p path_str_long_name e b m x y simp_thms)
qed

text \<open>
  Claim C4, amended: if \<^verbatim>\<open>exists()\<close> answers that the input directory does not exist,
  or it answers that it exists and \<^verbatim>\<open>iterdir()\<close> lists no name with a recognised
  extension (\<^verbatim>\<open>.png .jpg .jpeg .bmp .tiff\<close>, compared in lower case),
  \<^verbatim>\<open>process_batch\<close> returns an error dictionary and does not raise; and in these
  cases, as well as when \<^verbatim>\<open>exists()\<close> or \<^verbatim>\<open>iterdir()\<close> raises, the file system is
  left unchanged.
\<close>

theorem process_batch_error_cases:
  "(path_exists env fs (path_str (Path d)) = Inr False \<longrightarrow>
      process_batch env fs d out
        = (Inr (Error (''Input directory does not exist: '' @ d)), fs))
   \<and> (path_exists env fs (path_str (Path d)) = Inr True
        \<and> listdir env fs (path_str (Path d)) = Inr names
        \<and> (\<forall>n \<in> set names. lower (name_suffix n) \<notin> set image_extensions) \<longrightarrow>
      process_batch env fs d out
        = (Inr (Error ''No image files found in input directory''), fs))
   \<and> (path_exists env fs (path_str (Path d)) \<noteq> Inr True
        \<or> (\<exists>e. listdir env fs (path_str (Path d)) = Inl e)
        \<or> (\<exists>ns. listdir env fs (path_str (Path d)) = Inr ns
                 \<and> (\<forall>n \<in> set ns. lower (name_suffix n) \<notin> set image_extensions)) \<longrightarrow>
      snd (process_batch env fs d out) = fs)"
proof (intro conjI impI)
  assume "path_exists env fs (path_str (Path d)) = Inr False"
  then show "process_batch env fs d out
        = (Inr (Error (''Input directory does not exist: '' @ d)), fs)"
    by (simp add: process_batch_def)
next
  assume a: "path_exists env fs (path_str (Path d)) = Inr True
        \<and> listdir env fs (path_str (Path d)) = Inr names
        \<and> (\<forall>n \<in> set names. lower (name_suffix n) \<notin> set image_extensions)"
  then have "filter (\<lambda>n. lower (name_suffix n) \<in> set image_extensions) names = []"
    by (simp add: filter_empty_conv)
  with a show "process_batch env fs d out
        = (Inr (Error ''No image files found in input directory''), fs)"
    by (simp add: process_batch_def image_files_eq)
next
  assume a: "path_exists env fs (path_str (Path d)) \<noteq> Inr True
        \<or> (\<exists>e. listdir env fs (path_str (Path d)) = Inl e)
        \<or> (\<exists>ns. listdir env fs (path_str (Path d)) = Inr ns
                 \<and> (\<forall>n \<in> set ns. lower (name_suffix n) \<notin> set image_extensions))"
  show "snd (process_batch env fs d out) = fs"
  proof (cases "path_exists env fs (path_str (Path d))")
    case (Inl e)
    then show ?thesis by (simp add: process_batch_def)
  next
    case (Inr ex)
    show ?thesis
    proof (cases ex)
      case False
      with Inr show ?thesis by (simp add: process_batch_def)
    next
      case True
      show ?thesis
      proof (cases "listdir env fs (path_str (Path d))")
        case (Inl e)
        with Inr True show ?thesis by (simp add: process_batch_def)
      next
        case l: (Inr ns)
        with a Inr True
        have "\<forall>n \<in> set ns. lower (name_suffix n) \<notin> set image_extensions" by simp
        then have "filter (\<lambda>n. lower (name_suffix n) \<in> set image_extensions) ns = []"
          by (simp add: filter_empty_conv)
        with Inr True l show ?thesis by (simp add: process_batch_def image_files_eq)
      qed
    qed
  qed
qed

theorem process_batch_error_cases_witness:
  "path_exists demo_env demo_fs (path_str (Path ''nowhere'')) = Inr False
   \<and> process_batch demo_env demo_fs ''nowhere'' ''out''
       = (Inr (Error ''Input directory does not exist: nowhere''), demo_fs)
   \<and> path_exists demo_env demo_fs (path_str (Path ''docs'')) = Inr True
   \<and> listdir demo_env demo_fs (path_str (Path ''docs'')) = Inr [''notes.txt'']
   \<and> lower (name_suffix ''notes.txt'') \<notin> set image_extensions
   \<and> process_batch demo_env demo_fs ''docs'' ''out''
       = (Inr (Error ''No image files found in input directory''), demo_fs)
   \<and> listdir demo_env demo_fs (path_str (Path ''chart.png''))
       = Inl (Exn (''[Errno 20] Not a directory: '' @ [CHR 0x27] @ ''chart.png'' @ [CHR 0x27]))
   \<and> snd (process_batch demo_env demo_fs ''chart.png'' ''out'') = demo_fs"
proof -
  have h1: "path_exists demo_env demo_fs (path_str (Path ''nowhere'')) = Inr False"
    by (simp add: path_simps demo_simps)
  have h2: "path_exists demo_env demo_fs (path_str (Path ''docs'')) = Inr True"
    by (simp add: path_simps demo_simps)
  have h3: "listdir demo_env demo_fs (path_str (Path ''docs'')) = Inr [''notes.txt'']"
    by (simp add: path_simps demo_simps)
  have h4: "lower (name_suffix ''notes.txt'') \<notin> set image_extensions"
    by (simp add: path_simps)
  then have h4': "\<forall>n \<in> set [''notes.txt'']. lower (name_suffix n) \<notin> set image_extensions"
    by simp
  have h5: "listdir demo_env demo_fs (path_str (Path ''chart.png''))
       = Inl (Exn (''[Errno 20] Not a directory: '' @ [CHR 0x27] @ ''chart.png'' @ [CHR 0x27]))"
    by (simp add: path_simps demo_env_def)
  have r1: "process_batch demo_env demo_fs ''nowhere'' ''out''
       = (Inr (Error (''Input directory does not exist: '' @ ''nowhere'')), demo_fs)"
    by (rule process_batch_error_cases [of demo_env demo_fs "''nowhere''" "''out''" "[]",
          THEN conjunct1, THEN mp, OF h1])
  have r2: "process_batch demo_env demo_fs ''docs'' ''out''
       = (Inr (Error ''No image files found in input directory''), demo_fs)"
    by (rule process_batch_error_cases [of demo_env demo_fs "''docs''" "''out''" "[''notes.txt'']",
          THEN conjunct2, THEN conjunct1, THEN mp, OF conjI [OF h2 conjI [OF h3 h4']]])
  have r3: "snd (process_batch demo_env demo_fs ''chart.png'' ''out'') = demo_fs"
    by (rule process_batch_error_cases [of demo_env demo_fs "''chart.png''" "''out''" "[]",
          THEN conjunct2, THEN conjunct2, THEN mp]) (simp add: h5)
  from r1 have r1': "process_batch demo_env demo_fs ''nowhere'' ''out''
       = (Inr (Error ''Input directory does not exist: nowhere''), demo_fs)"
    by simp
  show ?thesis
    by (intro conjI h1 r1' h2 h3 h4 r2 h5 r3)
qed

text \<open>
  Claim C6.  An argument that starts with \<^verbatim>\<open>data:image\<close> is cut at its first comma
  and what follows is decoded as base64 (without a comma the unpacking fails); any other
  argument that starts with \<^verbatim>\<open>/\<close> or \<^verbatim>\<open>./\<close> is opened as a file; every remaining
  argument, a relative path such as \<^verbatim>\<open>charts/a.png\<close> included, is decoded as base64.
\<close>

theorem load_image_dispatch:
  "(startswith s ''data:image'' \<and> s = header @ '','' @ encoded \<and> CHR '','' \<notin> set header \<longrightarrow>
      load_image env s = decode_base64_image env encoded)
   \<and> (startswith s ''data:image'' \<and> CHR '','' \<notin> set s \<longrightarrow>
      load_image env s = Inl (Exn ''not enough values to unpack (expected 2, got 1)''))
   \<and> (\<not> startswith s ''data:image'' \<and> (startswith s ''/'' \<or> startswith s ''./'') \<longrightarrow>
      load_image env s = image_open_path env s)
   \<and> (\<not> startswith s ''data:image'' \<and> \<not> startswith s ''/'' \<and> \<not> startswith s ''./'' \<longrightarrow>
      load_image env s = decode_base64_image env s)"
proof (intro conjI impI)
  assume a: "startswith s ''data:image'' \<and> s = header @ '','' @ encoded \<and> CHR '','' \<notin> set header"
  then have p: "startswith s ''data:image''" by blast
  from a have "split_once (CHR '','') s = Some (header, encoded)"
    using split_once_first [of "CHR '',''" header encoded] by simp
  then show "load_image env s = decode_base64_image env encoded"
    unfolding load_image_def by (simp only: p if_True option.case prod.case)
next
  assume "startswith s ''data:image'' \<and> CHR '','' \<notin> set s"
  then show "load_image env s = Inl (Exn ''not enough values to unpack (expected 2, got 1)'')"
    by (simp add: load_image_def split_once_def)
next
  assume "\<not> startswith s ''data:image'' \<and> (startswith s ''/'' \<or> startswith s ''./'')"
  then show "load_image env s = image_open_path env s"
    by (simp add: load_image_def)
next
  assume "\<not> startswith s ''data:image'' \<and> \<not> startswith s ''/'' \<and> \<not> startswith s ''./''"
  then show "load_image env s = decode_base64_image env s"
    by (simp add: load_image_def)
qed

theorem load_image_dispatch_witness:
  "startswith ''data:image/png;base64,QUJD'' ''data:image''
   \<and> CHR '','' \<notin> set ''data:image/png;base64''
   \<and> load_image demo_embed_env ''data:image/png;base64,QUJD''
       = decode_base64_image demo_embed_env ''QUJD''
   \<and> decode_base64_image demo_embed_env ''QUJD'' = Inr [65, 66, 67]
   \<and> startswith ''data:image'' ''data:image'' \<and> CHR '','' \<notin> set ''data:image''
   \<and> load_image demo_embed_env ''data:image''
       = Inl (Exn ''not enough values to unpack (expected 2, got 1)'')
   \<and> \<not> startswith ''/data/abc.png'' ''data:image'' \<and> startswith ''/data/abc.png'' ''/''
   \<and> load_image demo_embed_env ''/data/abc.png''
       = image_open_path demo_embed_env ''/data/abc.png''
   \<and> \<not> startswith ''charts/a.png'' ''data:image'' \<and> \<not> startswith ''charts/a.png'' ''/''
   \<and> \<not> startswith ''charts/a.png'' ''./''
   \<and> load_image demo_embed_env ''charts/a.png''
       = decode_base64_image demo_embed_env ''charts/a.png''
   \<and> decode_base64_image demo_embed_env ''charts/a.png'' = Inl (Exn ''Incorrect padding'')"
proof -
  have d: "decode_base64_image demo_embed_env ''QUJD'' = Inr [65, 66, 67]"
      "decode_base64_image demo_embed_env ''charts/a.png'' = Inl (Exn ''Incorrect padding'')"
    by (simp_all add: decode_base64_image_def b64decode_def b64_alphabet_def demo_embed_env_def)
  have h: "startswith ''data:image/png;base64,QUJD'' ''data:image''"
      "CHR '','' \<notin> set ''data:image/png;base64''"
      "startswith ''data:image'' ''data:image''" "CHR '','' \<notin> set ''data:image''"
      "\<not> startswith ''/data/abc.png'' ''data:image''" "startswith ''/data/abc.png'' ''/''"
      "\<not> startswith ''charts/a.png'' ''data:image''" "\<not> startswith ''charts/a.png'' ''/''"
      "\<not> startswith ''charts/a.png'' ''./''"
    by (simp_all add: startswith_def)
  have r1: "load_image demo_embed_env ''data:image/png;base64,QUJD''
       = decode_base64_image demo_embed_env ''QUJD''"
    by (rule load_image_dispatch [of "''data:image/png;base64,QUJD''" "''data:image/png;base64''"
          "''QUJD''" demo_embed_env, THEN conjunct1, THEN mp])
       (simp add: startswith_def)
  have r2: "load_image demo_embed_env ''data:image''
       = Inl (Exn ''not enough values to unpack (expected 2, got 1)'')"
    by (rule load_image_dispatch [of "''data:image''" "[]" "[]" demo_embed_env,
          THEN conjunct2, THEN conjunct1, THEN mp])
       (simp add: startswith_def)
  have r3: "load_image demo_embed_env ''/data/abc.png''
       = image_open_path demo_embed_env ''/data/abc.png''"
    by (rule load_image_dispatch [of "''/data/abc.png''" "[]" "[]" demo_embed_env,
          THEN conjunct2, THEN conjunct2, THEN conjunct1, THEN mp])
       (simp add: startswith_def)
  have r4: "load_image demo_embed_env ''charts/a.png''
       = decode_base64_image demo_embed_env ''charts/a.png''"
    by (rule load_image_dispatch [of "''charts/a.png''" "[]" "[]" demo_embed_env,
          THEN conjunct2, THEN conjunct2, THEN conjunct2, THEN mp])
       (simp add: startswith_def)
  show ?thesis
    by (intro conjI h d r1 r2 r3 r4)
qed

text \<open>
  Claim C7.  In fallback mode two arguments whose decoded images have the same resized
  pixel bytes give the same result; and when the bytes hash to a seed, the result is the
  1024 samples drawn for that seed, each divided by the norm of the samples.
\<close>

theorem fallback_embedding_deterministic:
  assumes "load_image env s1 = Inr img1" and "load_image env s2 = Inr img2"
    and "resize_tobytes env img1 = resize_tobytes env img2"
  shows "generate_embedding env True s1 = generate_embedding env True s2
       \<and> (\<forall>bytes seed.
            resize_tobytes env img1 = Inr bytes
            \<and> int16 (take 8 (md5_hexdigest env bytes)) = Inr seed \<longrightarrow>
            generate_embedding env True s1
              = Embedding
                  (map (\<lambda>x. fdiv env x (linalg_norm env (map (normal_sample env seed) [0 ..< 1024])))
                       (map (normal_sample env seed) [0 ..< 1024]))
                  1024 ''Fallback 1024D (install open-clip-torch for real OpenCLIP)'')"
  using assms
  by (simp add: generate_embedding_def generate_embedding_try_def fallback_embedding_def)

theorem fallback_embedding_deterministic_witness:
  "load_image demo_embed_env ''/data/abc.png'' = Inr [65, 66, 67]
   \<and> load_image demo_embed_env ''data:image/png;base64,QUJD'' = Inr [65, 66, 67]
   \<and> resize_tobytes demo_embed_env [65, 66, 67] = Inr [65, 66, 67]
   \<and> int16 (take 8 (md5_hexdigest demo_embed_env [65, 66, 67])) = Inr 2419047890
   \<and> generate_embedding demo_embed_env True ''/data/abc.png''
       = generate_embedding demo_embed_env True ''data:image/png;base64,QUJD''
   \<and> generate_embedding demo_embed_env True ''/data/abc.png''
       = Embedding
           (map (\<lambda>x. fdiv demo_embed_env x
                        (linalg_norm demo_embed_env
                           (map (normal_sample demo_embed_env 2419047890) [0 ..< 1024])))
                (map (normal_sample demo_embed_env 2419047890) [0 ..< 1024]))
           1024 ''Fallback 1024D (install open-clip-torch for real OpenCLIP)''"
proof -
  have h1: "load_image demo_embed_env ''/data/abc.png'' = Inr [65, 66, 67]"
    by (simp add: load_image_def startswith_def demo_embed_env_def)
  have h2: "load_image demo_embed_env ''data:image/png;base64,QUJD'' = Inr [65, 66, 67]"
    by (simp add: load_image_def startswith_def split_once_def decode_base64_image_def
        b64decode_def b64_alphabet_def demo_embed_env_def)
  have h3: "resize_tobytes demo_embed_env [65, 66, 67] = resize_tobytes demo_embed_env [65, 66, 67]"
    by (rule refl)
  have b: "resize_tobytes demo_embed_env [65, 66, 67] = Inr [65, 66, 67]"
    by (simp add: demo_embed_env_def)
  have sd: "int16 (take 8 (md5_hexdigest demo_embed_env [65, 66, 67])) = Inr 2419047890"
    by (simp add: demo_embed_env_def int16_def hex_digit_def)
  note t = fallback_embedding_deterministic [OF h1 h2 h3]
  from t have e: "generate_embedding demo_embed_env True ''/data/abc.png''
       = generate_embedding demo_embed_env True ''data:image/png;base64,QUJD''"
    by (rule conjunct1)
  have f: "generate_embedding demo_embed_env True ''/data/abc.png''
       = Embedding
           (map (\<lambda>x. fdiv demo_embed_env x
                        (linalg_norm demo_embed_env
                           (map (normal_sample demo_embed_env 2419047890) [0 ..< 1024])))
                (map (normal_sample demo_embed_env 2419047890) [0 ..< 1024]))
           1024 ''Fallback 1024D (install open-clip-torch for real OpenCLIP)''"
    by (rule t [THEN conjunct2, rule_format, OF conjI [OF b sd]])
  show ?thesis by (intro conjI h1 h2 b sd e f)
qed

text \<open>
  Claim C8 as stated, in three concrete worlds.  Where \<^verbatim>\<open>open_clip\<close> is importable
  and loading the model fails, the image library is present and one argument, a
  nonexistent path, is supplied, yet the exit status is 1 and the printed error is that
  of the model.  Where the argument is the base64 text of a picture with a stray
  \<^verbatim>\<open>!\<close> in it, a malformed payload, decoding discards the character and the tool
  prints an embedding, not an error.  Where \<^verbatim>\<open>numpy\<close> is missing, the unguarded
  import ends the process with status 1 although an argument is supplied and the
  image library is present.
\<close>

theorem embed_main_exit_counterexample:
  "pil_import (demo_embed_env\<lparr>openclip_import := Imported\<rparr>) = Imported
   \<and> length [''openclip_embeddings.py'', ''/nonexistent.png''] = 2
   \<and> image_open_path (demo_embed_env\<lparr>openclip_import := Imported\<rparr>) ''/nonexistent.png''
       = Inl (Exn (''[Errno 2] No such file or directory: ''
                   @ [CHR 0x27] @ ''/nonexistent.png'' @ [CHR 0x27]))
   \<and> embed_main (demo_embed_env\<lparr>openclip_import := Imported\<rparr>)
        [''openclip_embeddings.py'', ''/nonexistent.png'']
       = ([EmbedError ''Failed to load OpenCLIP model: model file not found''], 1)
   \<and> b64decode ppm_embed_env ''UDYgMSAxIDI1NQoAAAA='' = Inr ppm_bytes
   \<and> b64decode ppm_embed_env ''UDYg!MSAxIDI1NQoAAAA='' = Inr ppm_bytes
   \<and> load_image ppm_embed_env ''UDYg!MSAxIDI1NQoAAAA='' = Inr ppm_bytes
   \<and> embed_main ppm_embed_env [''openclip_embeddings.py'', ''UDYg!MSAxIDI1NQoAAAA='']
       = ([generate_embedding ppm_embed_env True ''UDYg!MSAxIDI1NQoAAAA=''], 0)
   \<and> is_embedding (generate_embedding ppm_embed_env True ''UDYg!MSAxIDI1NQoAAAA='')
   \<and> pil_import (demo_embed_env\<lparr>numpy_import := ImportFailed\<rparr>) = Imported
   \<and> embed_main (demo_embed_env\<lparr>numpy_import := ImportFailed\<rparr>)
        [''openclip_embeddings.py'', ''/data/abc.png'']
       = ([], 1)"
proof -
  have a: "pil_import (demo_embed_env\<lparr>openclip_import := Imported\<rparr>) = Imported"
      "length [''openclip_embeddings.py'', ''/nonexistent.png''] = 2"
      "image_open_path (demo_embed_env\<lparr>openclip_import := Imported\<rparr>) ''/nonexistent.png''
       = Inl (Exn (''[Errno 2] No such file or directory: ''
                   @ [CHR 0x27] @ ''/nonexistent.png'' @ [CHR 0x27]))"
      "embed_main (demo_embed_env\<lparr>openclip_import := Imported\<rparr>)
        [''openclip_embeddings.py'', ''/nonexistent.png'']
       = ([EmbedError ''Failed to load OpenCLIP model: model file not found''], 1)"
    by (simp_all add: embed_main_def embed_main_body_def embedder_init_def demo_embed_env_def)
  have d: "b64decode ppm_embed_env ''UDYgMSAxIDI1NQoAAAA='' = Inr ppm_bytes"
      "b64decode ppm_embed_env ''UDYg!MSAxIDI1NQoAAAA='' = Inr ppm_bytes"
    by (simp_all add: b64decode_def b64_alphabet_def ppm_embed_env_def)
  have o: "image_open_bytes ppm_embed_env ppm_bytes = Inr ppm_bytes"
    by (simp add: ppm_embed_env_def)
  have l: "load_image ppm_embed_env ''UDYg!MSAxIDI1NQoAAAA='' = Inr ppm_bytes"
    by (simp add: load_image_def startswith_def decode_base64_image_def d o)
  have r: "resize_tobytes ppm_embed_env ppm_bytes = Inr ppm_bytes"
    by (simp add: ppm_embed_env_def demo_embed_env_def)
  have sd: "int16 (take 8 (md5_hexdigest ppm_embed_env ppm_bytes)) = Inr 2419047890"
    by (simp add: ppm_embed_env_def demo_embed_env_def int16_def hex_digit_def)
  have m: "embed_main ppm_embed_env [''openclip_embeddings.py'', ''UDYg!MSAxIDI1NQoAAAA='']
       = ([generate_embedding ppm_embed_env True ''UDYg!MSAxIDI1NQoAAAA=''], 0)"
    by (simp add: embed_main_def embed_main_body_def embedder_init_def ppm_embed_env_def
        demo_embed_env_def)
  have g: "is_embedding (generate_embedding ppm_embed_env True ''UDYg!MSAxIDI1NQoAAAA='')"
    by (simp only: generate_embedding_fallback_value [OF l r sd] is_embedding.simps)
  have n: "pil_import (demo_embed_env\<lparr>numpy_import := ImportFailed\<rparr>) = Imported"
      "embed_main (demo_embed_env\<lparr>numpy_import := ImportFailed\<rparr>)
        [''openclip_embeddings.py'', ''/data/abc.png'']
       = ([], 1)"
    by (simp_all add: embed_main_def demo_embed_env_def)
  show ?thesis
    by (intro conjI a d l m g n)
qed

text \<open>
  Claim C8, amended: the embedding tool exits with a non-zero status exactly when
  \<^verbatim>\<open>numpy\<close> or the image library cannot be imported, the import of \<^verbatim>\<open>open_clip\<close>
  and \<^verbatim>\<open>torch\<close> raises something other than \<^verbatim>\<open>ImportError\<close>, \<^verbatim>\<open>sys.argv\<close> does not
  have exactly two elements, or \<^verbatim>\<open>open_clip\<close> is importable and creating the device
  or loading the model fails.  In every other run, an argument from which no image can
  be loaded (base64 decoding raises, or the decoded bytes or the named file cannot be
  opened as an image) makes it print
  \<^verbatim>\<open>{"error": "Failed to generate embedding: <str(e)>"}\<close> and exit with status 0.
  Characters outside the base64 alphabet are discarded before decoding, so a payload
  that is malformed only by such characters is treated like the cleaned payload.
\<close>

theorem embed_main_exit_status:
  "(snd (embed_main env argv) \<noteq> 0 \<longleftrightarrow>
      (numpy_import env \<noteq> Imported \<or> pil_import env \<noteq> Imported
       \<or> (\<exists>e. openclip_import env = ImportRaised e)
       \<or> length argv \<noteq> 2
       \<or> (openclip_import env = Imported
            \<and> ((\<exists>e. torch_device env = Inl e) \<or> (\<exists>e. create_model env = Inl e)))))
   \<and> (snd (embed_main env argv) = 0 \<and> load_image env (argv ! 1) = Inl e \<longrightarrow>
      embed_main env argv = ([EmbedError (''Failed to generate embedding: '' @ str_exn e)], 0))
   \<and> (\<not> list_ex digit7 s \<longrightarrow>
      b64decode env s = b64decode env (filter (\<lambda>c. c \<in> set b64_alphabet) s))"
proof (intro conjI)
  show "snd (embed_main env argv) \<noteq> 0 \<longleftrightarrow>
      (numpy_import env \<noteq> Imported \<or> pil_import env \<noteq> Imported
       \<or> (\<exists>e. openclip_import env = ImportRaised e)
       \<or> length argv \<noteq> 2
       \<or> (openclip_import env = Imported
            \<and> ((\<exists>e. torch_device env = Inl e) \<or> (\<exists>e. create_model env = Inl e))))"
    by (auto simp: embed_main_def embed_main_body_def embedder_init_def
        split: import_outcome.splits sum.splits)
next
  show "snd (embed_main env argv) = 0 \<and> load_image env (argv ! 1) = Inl e \<longrightarrow>
      embed_main env argv = ([EmbedError (''Failed to generate embedding: '' @ str_exn e)], 0)"
    by (auto simp: embed_main_def embed_main_body_def embedder_init_def generate_embedding_def
        generate_embedding_try_def split: import_outcome.splits sum.splits if_splits)
next
  show "\<not> list_ex digit7 s \<longrightarrow>
      b64decode env s = b64decode env (filter (\<lambda>c. c \<in> set b64_alphabet) s)"
    by (auto simp: b64decode_def list_ex_iff)
qed

theorem embed_main_exit_status_witness:
  "snd (embed_main demo_embed_env [''openclip_embeddings.py'', ''/nonexistent.png'']) = 0
   \<and> load_image demo_embed_env ([''openclip_embeddings.py'', ''/nonexistent.png''] ! 1)
       = Inl (Exn (''[Errno 2] No such file or directory: ''
                   @ [CHR 0x27] @ ''/nonexistent.png'' @ [CHR 0x27]))
   \<and> embed_main demo_embed_env [''openclip_embeddings.py'', ''/nonexistent.png'']
       = ([EmbedError (''Failed to generate embedding: [Errno 2] No such file or directory: ''
                       @ [CHR 0x27] @ ''/nonexistent.png'' @ [CHR 0x27])], 0)
   \<and> snd (embed_main demo_embed_env [''openclip_embeddings.py'', ''QUJ'']) = 0
   \<and> load_image demo_embed_env ([''openclip_embeddings.py'', ''QUJ''] ! 1)
       = Inl (Exn ''Incorrect padding'')
   \<and> embed_main demo_embed_env [''openclip_embeddings.py'', ''QUJ'']
       = ([EmbedError ''Failed to generate embedding: Incorrect padding''], 0)
   \<and> length [''openclip_embeddings.py''] \<noteq> 2
   \<and> snd (embed_main demo_embed_env [''openclip_embeddings.py'']) \<noteq> 0
   \<and> \<not> list_ex digit7 ''QU!JD''
   \<and> filter (\<lambda>c. c \<in> set b64_alphabet) ''QU!JD'' = ''QUJD''
   \<and> b64decode demo_embed_env ''QU!JD'' = b64decode demo_embed_env ''QUJD''"
proof -
  let ?p = "[''openclip_embeddings.py'', ''/nonexistent.png'']"
  let ?q = "[''openclip_embeddings.py'', ''QUJ'']"
  let ?e = "Exn (''[Errno 2] No such file or directory: ''
                   @ [CHR 0x27] @ ''/nonexistent.png'' @ [CHR 0x27])"
  have i: "numpy_import demo_embed_env = Imported" "pil_import demo_embed_env = Imported"
      "openclip_import demo_embed_env = ImportFailed"
    by (simp_all add: demo_embed_env_def)
  have z: "snd (embed_main demo_embed_env ?p) = 0" "snd (embed_main demo_embed_env ?q) = 0"
    by (simp_all add: embed_main_def embed_main_body_def embedder_init_def i)
  have l: "load_image demo_embed_env (?p ! 1) = Inl ?e"
      "load_image demo_embed_env (?q ! 1) = Inl (Exn ''Incorrect padding'')"
    by (simp_all add: load_image_def startswith_def decode_base64_image_def b64decode_def
        b64_alphabet_def demo_embed_env_def)
  have a: "embed_main demo_embed_env ?p
       = ([EmbedError (''Failed to generate embedding: '' @ str_exn ?e)], 0)"
    by (rule embed_main_exit_status [of demo_embed_env ?p ?e "[]",
          THEN conjunct2, THEN conjunct1, THEN mp, OF conjI [OF z(1) l(1)]])
  have b: "embed_main demo_embed_env ?q
       = ([EmbedError (''Failed to generate embedding: '' @ str_exn (Exn ''Incorrect padding''))], 0)"
    by (rule embed_main_exit_status [of demo_embed_env ?q "Exn ''Incorrect padding''" "[]",
          THEN conjunct2, THEN conjunct1, THEN mp, OF conjI [OF z(2) l(2)]])
  have n: "length [''openclip_embeddings.py''] \<noteq> 2" by simp
  have c: "snd (embed_main demo_embed_env [''openclip_embeddings.py'']) \<noteq> 0"
    using embed_main_exit_status [of demo_embed_env "[''openclip_embeddings.py'']" ?e "[]",
        THEN conjunct1] n by blast
  have x: "\<not> list_ex digit7 ''QU!JD''" by simp
  have f: "filter (\<lambda>c. c \<in> set b64_alphabet) ''QU!JD'' = ''QUJD''"
    by (simp add: b64_alphabet_def)
  have k: "b64decode demo_embed_env ''QU!JD'' = b64decode demo_embed_env ''QUJD''"
    using embed_main_exit_status [of demo_embed_env ?p ?e "''QU!JD''",
        THEN conjunct2, THEN conjunct2, THEN mp, OF x]
    by (simp only: f)
  from a have a': "embed_main demo_embed_env ?p
       = ([EmbedError (''Failed to generate embedding: [Errno 2] No such file or directory: ''
                       @ [CHR 0x27] @ ''/nonexistent.png'' @ [CHR 0x27])], 0)"
    by simp
  from b have b': "embed_main demo_embed_env ?q
       = ([EmbedError ''Failed to generate embedding: Incorrect padding''], 0)"
    by simp
  show ?thesis
    by (intro conjI z l a' b' n c x f k)
qed

end
